theory Spec2Isabelle
  imports Complex_Main "HOL-Library.Word" "HOL-Library.Sublist"
begin

unbundle bit_operations_syntax

section \<open>Strings\<close>

text \<open>
  JavaScript strings are modelled as HOL strings: one \<^typ>\<open>char\<close> stands for one code unit
  below 256, which covers every address, topic and data string of the analyzers.
  \<open>toLowerCase\<close> acts on the ASCII letters and on the Latin-1 letters (0xC0 to 0xDE
  without 0xD7), as the Unicode default case conversion does on that range.
  \<open>upper_char\<close> is \<open>toUpperCase\<close> on a single character, the way back; the upper case
  of 0xB5, 0xDF and 0xFF is no code unit below 256, and the model leaves these three as
  they are (the analyzers upper-case hex digits only). In both ranges the two cases of a
  letter differ by 32, that is by bit 5 of the code unit.
\<close>

fun lower_char :: "char \<Rightarrow> char" where
  "lower_char (Char b0 b1 b2 b3 b4 b5 b6 b7) =
     (let n = (of_char (Char b0 b1 b2 b3 b4 b5 b6 b7) :: nat) in
      if (65 \<le> n \<and> n \<le> 90) \<or> (192 \<le> n \<and> n \<le> 222 \<and> n \<noteq> 215)
      then Char b0 b1 b2 b3 b4 True b6 b7 else Char b0 b1 b2 b3 b4 b5 b6 b7)"

fun upper_char :: "char \<Rightarrow> char" where
  "upper_char (Char b0 b1 b2 b3 b4 b5 b6 b7) =
     (let n = (of_char (Char b0 b1 b2 b3 b4 b5 b6 b7) :: nat) in
      if (97 \<le> n \<and> n \<le> 122) \<or> (224 \<le> n \<and> n \<le> 254 \<and> n \<noteq> 247)
      then Char b0 b1 b2 b3 b4 False b6 b7 else Char b0 b1 b2 b3 b4 b5 b6 b7)"

definition toLowerCase :: "string \<Rightarrow> string" where
  "toLowerCase s = map lower_char s"

text \<open>\<open>xs[i]\<close> of JavaScript: \<open>undefined\<close> (here \<open>None\<close>) out of range.\<close>

fun at_index :: "'a list \<Rightarrow> nat \<Rightarrow> 'a option" where
  "at_index [] i = None"
| "at_index (x # xs) 0 = Some x"
| "at_index (x # xs) (Suc i) = at_index xs i"

text \<open>\<open>!x\<close> for a nullable string \<open>x\<close>: true for \<open>null\<close> and for the empty string.\<close>

definition is_falsy :: "string option \<Rightarrow> bool" where
  "is_falsy t = (case t of None \<Rightarrow> True | Some s \<Rightarrow> s = [])"

text \<open>\<open>s.includes(sub)\<close>: \<open>sub\<close> occurs in \<open>s\<close> as a contiguous substring.\<close>

fun str_includes :: "string \<Rightarrow> string \<Rightarrow> bool" where
  "str_includes [] sub = (sub = [])"
| "str_includes (c # cs) sub = (prefix sub (c # cs) \<or> str_includes cs sub)"

text \<open>What the analyzers can throw: a JavaScript \<open>TypeError\<close> (a property read on
  \<open>undefined\<close>), a \<open>SyntaxError\<close> (\<open>BigInt\<close> of a string that is no integer), and the
  errors of the ethers library: an invalid argument, and the \<open>RangeError\<close> of a numeric
  fault.\<close>

datatype js_error = TypeError | SyntaxError | RangeError string | InvalidArgument string

section \<open>BaseMetricsCollector: transaction categories\<close>

datatype TransactionCategory =
  TRANSFER | DEFI_SWAP | DEFI_LIQUIDITY | NFT_TRADE | CONTRACT_DEPLOYMENT
  | CONTRACT_INTERACTION | BRIDGE | UNKNOWN

text \<open>A raw event log of a receipt: emitting contract, topics, data.\<close>

record Log =
  address :: string
  topics :: "string list"
  data :: string

text \<open>
  The fields of the ethers transaction response and receipt that the collector reads.
  \<open>to\<close> is \<open>null\<close> for a contract creation; \<open>value\<close> is a BigNumber.
\<close>

record TransactionResponse =
  to :: "string option"
  "value" :: int

record TransactionReceipt =
  logs :: "Log list"

text \<open>
  An ethers 5 \<open>BigNumber\<close> as \<open>BigNumber.from\<close> builds it from a string: the integer it
  denotes, or, for a literal the library accepts without being able to read it (see
  \<open>BigNumber_from\<close> below), an object that is no number, kept with the literal it came from.
\<close>

datatype BigNumber = BigNumber int | CorruptBigNumber string

record TokenTransfer =
  token :: string
  from_addr :: string
  to_addr :: string
  amount :: BigNumber
  symbol :: string
  decimals :: nat

definition categorizeTransaction ::
  "TransactionResponse \<Rightarrow> TransactionReceipt \<Rightarrow> TokenTransfer list \<Rightarrow> TransactionCategory" where
  "categorizeTransaction tx receipt tokenTransfers =
     (if is_falsy (to tx) \<or> (0 < value tx \<and> length (logs receipt) = 0) then TRANSFER
      else if is_falsy (to tx) then CONTRACT_DEPLOYMENT
      else if length tokenTransfers > 1 then DEFI_SWAP
      else if length tokenTransfers = 1 then TRANSFER
      else if length (logs receipt) > 0 then CONTRACT_INTERACTION
      else UNKNOWN)"

text \<open>
  The \<open>return\<close> statement that \<open>categorizeTransaction\<close> leaves through, numbered in
  source order: the same guards, with the position kept instead of the category.
\<close>

datatype return_site =
  SimpleEthTransfer | ContractDeploymentSite | MultipleTokenTransfers
  | SingleTokenTransfer | ContractInteractionSite | FallThrough

definition categorizeTransaction_site ::
  "TransactionResponse \<Rightarrow> TransactionReceipt \<Rightarrow> TokenTransfer list \<Rightarrow> return_site" where
  "categorizeTransaction_site tx receipt tokenTransfers =
     (if is_falsy (to tx) \<or> (0 < value tx \<and> length (logs receipt) = 0) then SimpleEthTransfer
      else if is_falsy (to tx) then ContractDeploymentSite
      else if length tokenTransfers > 1 then MultipleTokenTransfers
      else if length tokenTransfers = 1 then SingleTokenTransfer
      else if length (logs receipt) > 0 then ContractInteractionSite
      else FallThrough)"

fun site_category :: "return_site \<Rightarrow> TransactionCategory" where
  "site_category SimpleEthTransfer = TRANSFER"
| "site_category ContractDeploymentSite = CONTRACT_DEPLOYMENT"
| "site_category MultipleTokenTransfers = DEFI_SWAP"
| "site_category SingleTokenTransfer = TRANSFER"
| "site_category ContractInteractionSite = CONTRACT_INTERACTION"
| "site_category FallThrough = UNKNOWN"

section \<open>BaseNetworkUtils: the static contract and token tables\<close>

datatype contract_category = defi | bridge | nft | infrastructure | gaming

text \<open>A row of \<open>BASE_CONTRACTS\<close>; the \<open>abi\<close> field is the empty array in every row and
  is left out.\<close>

record BaseContract =
  contract_name :: string
  contract_address :: string
  category :: contract_category

definition BASE_CONTRACTS :: "BaseContract list" where
  "BASE_CONTRACTS =
    [\<lparr>contract_name = ''Uniswap V3 Router'',
      contract_address = ''0x2626664c2603336E57B271c5C0b26F421741e481'', category = defi\<rparr>,
     \<lparr>contract_name = ''Uniswap V3 Factory'',
      contract_address = ''0x33128a8fC17869897dcE68Ed026d694621f6FDfD'', category = defi\<rparr>,
     \<lparr>contract_name = ''Aerodrome Router'',
      contract_address = ''0xcF77a3Ba9A5CA399B7c97c74d54e5b1Beb874E43'', category = defi\<rparr>,
     \<lparr>contract_name = ''Aerodrome Factory'',
      contract_address = ''0x420DD381b31aEf6683db6B902084cB0FFECe40Da'', category = defi\<rparr>,
     \<lparr>contract_name = ''Compound V3 USDC'',
      contract_address = ''0x9c4ec768c28520B50860ea7a15bd7213a9fF58bf'', category = defi\<rparr>,
     \<lparr>contract_name = ''Base Bridge'',
      contract_address = ''0x3154Cf16ccdb4C6d922629664174b904d80F2C35'', category = bridge\<rparr>,
     \<lparr>contract_name = ''WETH'',
      contract_address = ''0x4200000000000000000000000000000000000006'',
      category = infrastructure\<rparr>]"

record BaseToken =
  token_symbol :: string
  token_name :: string
  token_address :: string
  token_decimals :: nat
  coingeckoId :: "string option"

definition BASE_TOKENS :: "BaseToken list" where
  "BASE_TOKENS =
    [\<lparr>token_symbol = ''ETH'', token_name = ''Ethereum'',
      token_address = ''0x0000000000000000000000000000000000000000'',
      token_decimals = 18, coingeckoId = Some ''ethereum''\<rparr>,
     \<lparr>token_symbol = ''WETH'', token_name = ''Wrapped Ether'',
      token_address = ''0x4200000000000000000000000000000000000006'',
      token_decimals = 18, coingeckoId = Some ''weth''\<rparr>,
     \<lparr>token_symbol = ''USDC'', token_name = ''USD Coin'',
      token_address = ''0x833589fCD6eDb6E08f4c7C32D4f71b54bdA02913'',
      token_decimals = 6, coingeckoId = Some ''usd-coin''\<rparr>,
     \<lparr>token_symbol = ''USDbC'', token_name = ''USD Base Coin'',
      token_address = ''0xd9aAEc86B65D86f6A7B5B1b0c42FFA531710b6CA'',
      token_decimals = 6, coingeckoId = Some ''bridged-usdc-base''\<rparr>,
     \<lparr>token_symbol = ''DAI'', token_name = ''Dai Stablecoin'',
      token_address = ''0x50c5725949A6F0c72E6C4a641F24049A917DB0Cb'',
      token_decimals = 18, coingeckoId = Some ''dai''\<rparr>,
     \<lparr>token_symbol = ''AERO'', token_name = ''Aerodrome Finance'',
      token_address = ''0x940181a94A35A4569E4529A3CDfB74e38FD98631'',
      token_decimals = 18, coingeckoId = Some ''aerodrome-finance''\<rparr>,
     \<lparr>token_symbol = ''COMP'', token_name = ''Compound'',
      token_address = ''0x9e1028F5F1D5eDE59748FFceE5532509976840E0'',
      token_decimals = 18, coingeckoId = Some ''compound-governance-token''\<rparr>]"

text \<open>\<open>BASE_CONTRACTS.find(...) || null\<close>: the first row whose lower-cased address is the
  lower-cased argument.\<close>

definition getContractInfo :: "string \<Rightarrow> BaseContract option" where
  "getContractInfo a =
     find (\<lambda>contract. toLowerCase (contract_address contract) = toLowerCase a) BASE_CONTRACTS"

definition getTokenInfo :: "string \<Rightarrow> BaseToken option" where
  "getTokenInfo addressOrSymbol =
     (let search = toLowerCase addressOrSymbol in
      find (\<lambda>token. toLowerCase (token_address token) = search
                      \<or> toLowerCase (token_symbol token) = search) BASE_TOKENS)"

text \<open>Two strings are case variants when they agree position by position up to the case
  of each character.\<close>

definition case_variant :: "string \<Rightarrow> string \<Rightarrow> bool" where
  "case_variant a b = list_all2 (\<lambda>x y. x = y \<or> x = upper_char y \<or> x = lower_char y) a b"

definition has_ascii_upper :: "string \<Rightarrow> bool" where
  "has_ascii_upper s = list_ex (\<lambda>c. 65 \<le> (of_char c :: nat) \<and> (of_char c :: nat) \<le> 90) s"

section \<open>DeFiProtocolAnalyzer: protocol detection\<close>

record ContractAddresses =
  router :: "string option"
  factory :: "string option"
  quoter :: "string option"
  pool :: "string option"

text \<open>A protocol configuration; the \<open>abi\<close> field is the empty array throughout.\<close>

record ProtocolConfig =
  protocol_name :: string
  version :: string
  contractAddresses :: ContractAddresses

text \<open>\<open>Object.values\<close> of a \<open>contractAddresses\<close> object: the addresses that are present,
  in the order the object literals of \<open>initializeProtocols\<close> write them.\<close>

definition Object_values :: "ContractAddresses \<Rightarrow> string list" where
  "Object_values ca = List.map_filter id [router ca, factory ca, quoter ca, pool ca]"

text \<open>The \<open>protocols\<close> map after \<open>initializeProtocols\<close>, in insertion order.\<close>

definition protocols :: "(string \<times> ProtocolConfig) list" where
  "protocols =
    [(''uniswap-v3'',
      \<lparr>protocol_name = ''Uniswap V3'', version = ''3.0'',
       contractAddresses =
         \<lparr>router = Some ''0x2626664c2603336E57B271c5C0b26F421741e481'',
          factory = Some ''0x33128a8fC17869897dcE68Ed026d694621f6FDfD'',
          quoter = Some ''0x3d4e44Eb1374240CE5F1B871ab261CD16335B76a'',
          pool = None\<rparr>\<rparr>),
     (''aerodrome'',
      \<lparr>protocol_name = ''Aerodrome'', version = ''1.0'',
       contractAddresses =
         \<lparr>router = Some ''0xcF77a3Ba9A5CA399B7c97c74d54e5b1Beb874E43'',
          factory = Some ''0x420DD381b31aEf6683db6B902084cB0FFECe40Da'',
          quoter = None, pool = None\<rparr>\<rparr>),
     (''compound-v3'',
      \<lparr>protocol_name = ''Compound V3'', version = ''3.0'',
       contractAddresses =
         \<lparr>router = None, factory = None, quoter = None,
          pool = Some ''0x9c4ec768c28520B50860ea7a15bd7213a9fF58bf''\<rparr>\<rparr>)]"

text \<open>The loop of \<open>detectProtocol\<close> returns the first protocol one of whose addresses is
  the lower-cased argument; the stored addresses are compared as they are written.\<close>

definition detectProtocol :: "string option \<Rightarrow> ProtocolConfig option" where
  "detectProtocol contractAddress =
     (if is_falsy contractAddress then None
      else find (\<lambda>protocol.
                   toLowerCase (the contractAddress)
                     \<in> set (Object_values (contractAddresses protocol)))
             (map snd protocols))"

section \<open>BaseBridgeAnalyzer: bridge direction\<close>

datatype direction = deposit | withdrawal | prove | finalize

definition l1StandardBridge :: string where
  "l1StandardBridge = ''0x3154Cf16ccdb4C6d922629664174b904d80F2C35''"

definition l2StandardBridge :: string where
  "l2StandardBridge = ''0x4200000000000000000000000000000000000010''"

definition optimismPortal :: string where
  "optimismPortal = ''0x49048044D57e1C92A77f79988d21Fa8fAF74E97e''"

definition l2OutputOracle :: string where
  "l2OutputOracle = ''0x56315b90c40730925ec5485cf004d835058518A0''"

text \<open>\<open>logs.some(log => log.topics[0].includes('Proven'))\<close>: the logs are visited in order
  until one matches; a log without topics met on the way throws, since \<open>includes\<close> is
  then read on \<open>undefined\<close>.\<close>

fun some_topic0_includes_Proven :: "Log list \<Rightarrow> js_error + bool" where
  "some_topic0_includes_Proven [] = Inr False"
| "some_topic0_includes_Proven (lg # rest) =
     (case at_index (topics lg) 0 of
        None \<Rightarrow> Inl TypeError
      | Some t \<Rightarrow> if str_includes t ''Proven'' then Inr True else some_topic0_includes_Proven rest)"

definition determineBridgeDirection :: "string option \<Rightarrow> Log list \<Rightarrow> js_error + direction" where
  "determineBridgeDirection to_address ls =
     (if is_falsy to_address then Inr deposit
      else let contractAddress = toLowerCase (the to_address) in
        if contractAddress = toLowerCase l1StandardBridge then Inr deposit
        else if contractAddress = toLowerCase l2StandardBridge then Inr withdrawal
        else if contractAddress = toLowerCase optimismPortal then
          (case some_topic0_includes_Proven ls of
             Inl e \<Rightarrow> Inl e
           | Inr found \<Rightarrow> Inr (if found then prove else finalize))
        else Inr deposit)"

text \<open>The portal rule in the words of the specification: \<open>prove\<close> when some topic of some
  log contains the marker, \<open>finalize\<close> otherwise.\<close>

definition spec_portal_direction :: "Log list \<Rightarrow> direction" where
  "spec_portal_direction ls =
     (if list_ex (\<lambda>lg. list_ex (\<lambda>t. str_includes t ''Proven'') (topics lg)) ls
      then prove else finalize)"

text \<open>A receipt log of an anonymous event without indexed arguments (the EVM's \<open>LOG0\<close>):
  it has no topics at all.\<close>

definition topicless_log :: Log where
  "topicless_log =
     \<lparr>address = ''0x4200000000000000000000000000000000000006'',
      topics = [],
      data = ''0x0000000000000000000000000000000000000000000000000de0b6b3a7640000''\<rparr>"

section \<open>The ethers helpers used by the log decoders\<close>

definition is_hex_char :: "char \<Rightarrow> bool" where
  "is_hex_char c = (c \<in> set ''0123456789abcdefABCDEF'')"

definition is_dec_char :: "char \<Rightarrow> bool" where
  "is_dec_char c = (c \<in> set ''0123456789'')"

definition hex_digit_value :: "char \<Rightarrow> nat" where
  "hex_digit_value c =
     (let n = (of_char c :: nat) in
      if 48 \<le> n \<and> n \<le> 57 then n - 48
      else if 97 \<le> n \<and> n \<le> 102 then n - 87
      else if 65 \<le> n \<and> n \<le> 70 then n - 55
      else 0)"

text \<open>The number a string of digits denotes, most significant digit first.\<close>

definition hex_value :: "string \<Rightarrow> nat" where
  "hex_value s = foldl (\<lambda>acc d. 16 * acc + d) 0 (map hex_digit_value s)"

definition dec_value :: "string \<Rightarrow> nat" where
  "dec_value s = foldl (\<lambda>acc d. 10 * acc + d) 0 (map hex_digit_value s)"

text \<open>
  \<open>BigNumber.from(value)\<close> of ethers 5 for a string: a hexadecimal literal
  (\<open>/^-?0x[0-9a-f]+$/i\<close>) or a decimal one (\<open>/^-?[0-9]+$/\<close>), anything else throws
  \<open>invalid BigNumber string\<close>. The first pattern ignores case, so it also lets the prefix
  \<open>0X\<close> through; \<open>toHex\<close> then takes the literal for one without a prefix and puts
  \<open>0x\<close> in front of it, and the object that is built holds no hex number.
\<close>

definition BigNumber_from :: "string \<Rightarrow> js_error + BigNumber" where
  "BigNumber_from v =
     (let negative = (take 1 v = ''-'');
          body = (if negative then drop 1 v else v);
          sign = (if negative then - 1 else 1)
      in if toLowerCase (take 2 body) = ''0x'' \<and> drop 2 body \<noteq> []
            \<and> list_all is_hex_char (drop 2 body)
         then (if take 2 body = ''0x''
               then Inr (BigNumber (sign * int (hex_value (drop 2 body))))
               else Inr (CorruptBigNumber v))
         else if body \<noteq> [] \<and> list_all is_dec_char body
         then Inr (BigNumber (sign * int (dec_value body)))
         else Inl (InvalidArgument ''invalid BigNumber string''))"

text \<open>
  \<open>getChecksumAddress\<close> of ethers: the address is lower-cased, and hex digit \<open>i\<close> is
  upper-cased when nibble \<open>i\<close> of the Keccak-256 digest of the forty lower-case digits
  is at least 8. The digest is the parameter \<open>keccak256\<close>, from the digits to the
  digest bytes; a byte missing from it compares as \<open>undefined\<close>, that is as false.
\<close>

definition digest_nibble_ge_8 :: "8 word list \<Rightarrow> nat \<Rightarrow> bool" where
  "digest_nibble_ge_8 hashed i =
     (case at_index hashed (i div 2) of
        None \<Rightarrow> False
      | Some b \<Rightarrow> if even i then 8 \<le> drop_bit 4 b else 8 \<le> (b AND 0x0f))"

definition getChecksumAddress :: "(string \<Rightarrow> 8 word list) \<Rightarrow> string \<Rightarrow> string" where
  "getChecksumAddress keccak256 addr =
     (let chars = drop 2 (toLowerCase addr);
          hashed = keccak256 chars
      in ''0x'' @ map (\<lambda>(i, c). if digest_nibble_ge_8 hashed i then upper_char c else c)
                   (enumerate 0 chars))"

text \<open>\<open>/([A-F].*[a-f])|([a-f].*[A-F])/\<close>: an upper-case and a lower-case hex letter both
  occur.\<close>

definition mixed_case :: "string \<Rightarrow> bool" where
  "mixed_case s = (list_ex (\<lambda>c. c \<in> set ''ABCDEF'') s \<and> list_ex (\<lambda>c. c \<in> set ''abcdef'') s)"

text \<open>
  \<open>getAddress('0x' + s)\<close> of ethers, as both decoders call it. With the prefix in front,
  the argument matches \<open>/^(0x)?[0-9a-fA-F]{40}$/\<close> exactly when \<open>s\<close> is forty hex digits,
  and it never matches the ICAP pattern, which starts with \<open>XE\<close>. A mixed-case address
  must carry its own checksum. The result is the checksum address.
\<close>

definition getAddress_0x :: "(string \<Rightarrow> 8 word list) \<Rightarrow> string \<Rightarrow> js_error + string" where
  "getAddress_0x keccak256 s =
     (let addr = ''0x'' @ s in
      if length s = 40 \<and> list_all is_hex_char s then
        (let result = getChecksumAddress keccak256 addr in
         if mixed_case addr \<and> result \<noteq> addr
         then Inl (InvalidArgument ''bad address checksum'')
         else Inr result)
      else Inl (InvalidArgument ''invalid address''))"

text \<open>\<open>getAddress('0x' + log.topics[i].slice(26))\<close>; a topic that is missing throws a
  \<open>TypeError\<close> on \<open>slice\<close>.\<close>

definition address_of_topic ::
  "(string \<Rightarrow> 8 word list) \<Rightarrow> string list \<Rightarrow> nat \<Rightarrow> js_error + string" where
  "address_of_topic keccak256 ts i =
     (case at_index ts i of
        None \<Rightarrow> Inl TypeError
      | Some t \<Rightarrow> getAddress_0x keccak256 (drop 26 t))"

section \<open>BaseMetricsCollector: token transfers\<close>

definition transferEventSignature :: string where
  "transferEventSignature =
     ''0xddf252ad1be2c89b69c2b068fc378daa952ba7f163c4a11628f55a4df523b3ef''"

text \<open>The \<open>knownContracts\<close> map after \<open>initializeKnownContracts\<close>.\<close>

definition knownContracts :: "(string \<times> string) list" where
  "knownContracts =
     [(''0x4200000000000000000000000000000000000006'', ''WETH''),
      (''0x833589fCD6eDb6E08f4c7C32D4f71b54bdA02913'', ''USDC''),
      (''0x50c5725949A6F0c72E6C4a641F24049A917DB0Cb'', ''DAI'')]"

text \<open>\<open>this.knownContracts.get(a) || 'UNKNOWN'\<close>.\<close>

definition symbol_of :: "string \<Rightarrow> string" where
  "symbol_of a =
     (case map_of knownContracts a of
        None \<Rightarrow> ''UNKNOWN''
      | Some s \<Rightarrow> if s = [] then ''UNKNOWN'' else s)"

text \<open>The body of the \<open>try\<close> block: the two addresses, then the amount, then the record
  that is pushed. The first failure is the exception thrown.\<close>

definition parse_transfer :: "(string \<Rightarrow> 8 word list) \<Rightarrow> Log \<Rightarrow> js_error + TokenTransfer" where
  "parse_transfer keccak256 lg =
     (case address_of_topic keccak256 (topics lg) 1 of
        Inl e \<Rightarrow> Inl e
      | Inr from_a \<Rightarrow>
     (case address_of_topic keccak256 (topics lg) 2 of
        Inl e \<Rightarrow> Inl e
      | Inr to_a \<Rightarrow>
     (case BigNumber_from (data lg) of
        Inl e \<Rightarrow> Inl e
      | Inr amt \<Rightarrow>
          Inr \<lparr>token = address lg, from_addr = from_a, to_addr = to_a, amount = amt,
               symbol = symbol_of (address lg), decimals = 18\<rparr>)))"

text \<open>The loop over \<open>receipt.logs\<close>, with \<open>transfers\<close> as the accumulator; \<open>catch\<close> only
  logs a warning, so a failed parse leaves the accumulator as it is.\<close>

fun extract_loop ::
  "(string \<Rightarrow> 8 word list) \<Rightarrow> Log list \<Rightarrow> TokenTransfer list \<Rightarrow> TokenTransfer list" where
  "extract_loop keccak256 [] transfers = transfers"
| "extract_loop keccak256 (lg # rest) transfers =
     extract_loop keccak256 rest
       (if at_index (topics lg) 0 = Some transferEventSignature \<and> length (topics lg) = 3
        then (case parse_transfer keccak256 lg of
                Inl e \<Rightarrow> transfers
              | Inr t \<Rightarrow> transfers @ [t])
        else transfers)"

definition extractTokenTransfers ::
  "(string \<Rightarrow> 8 word list) \<Rightarrow> TransactionReceipt \<Rightarrow> TokenTransfer list" where
  "extractTokenTransfers keccak256 receipt = extract_loop keccak256 (logs receipt) []"

section \<open>BaseNFTAnalyzer: NFT transfer logs\<close>

record NFTLog =
  nft_address :: string
  tokenId :: int
  nft_from :: string
  nft_to :: string

definition transferTopic :: string where
  "transferTopic = ''0xddf252ad1be2c89b69c2b068fc378daa952ba7f163c4a11628f55a4df523b3ef''"

text \<open>
  \<open>ethers.toBigInt(v)\<close> of ethers 6 on a topic that may be \<open>undefined\<close>: \<open>undefined\<close> and
  the empty string are invalid; otherwise a leading minus sign is taken off and the rest
  is handed to JavaScript's \<open>BigInt\<close>, the parameter \<open>BigInt\<close> (\<open>None\<close> where it
  throws a \<open>SyntaxError\<close>). The token id is kept as the integer whose decimal string the
  code stores.
\<close>

definition toBigInt :: "(string \<Rightarrow> int option) \<Rightarrow> string option \<Rightarrow> js_error + int" where
  "toBigInt BigInt v =
     (case v of
        None \<Rightarrow> Inl (InvalidArgument ''invalid BigNumberish value'')
      | Some s \<Rightarrow>
          if s = [] then Inl (InvalidArgument ''invalid BigNumberish string'')
          else (case (if take 1 s = ''-'' \<and> take 1 (drop 1 s) \<noteq> ''-''
                      then map_option uminus (BigInt (drop 1 s)) else BigInt s) of
                  None \<Rightarrow> Inl (InvalidArgument ''invalid BigNumberish string'')
                | Some n \<Rightarrow> Inr n))"

text \<open>The callback of \<open>map\<close>: the fields of the object literal are evaluated in the order
  written, so the token id is converted before the addresses are.\<close>

definition nft_of_log ::
  "(string \<Rightarrow> 8 word list) \<Rightarrow> (string \<Rightarrow> int option) \<Rightarrow> Log \<Rightarrow> js_error + NFTLog" where
  "nft_of_log keccak256 BigInt lg =
     (case toBigInt BigInt (at_index (topics lg) 3) of
        Inl e \<Rightarrow> Inl e
      | Inr tid \<Rightarrow>
     (case address_of_topic keccak256 (topics lg) 1 of
        Inl e \<Rightarrow> Inl e
      | Inr from_a \<Rightarrow>
     (case address_of_topic keccak256 (topics lg) 2 of
        Inl e \<Rightarrow> Inl e
      | Inr to_a \<Rightarrow>
          Inr \<lparr>nft_address = address lg, tokenId = tid, nft_from = from_a, nft_to = to_a\<rparr>)))"

text \<open>\<open>Array.prototype.map\<close> with a callback that may throw: the first exception ends
  the whole call.\<close>

fun map_throwing :: "('a \<Rightarrow> js_error + 'b) \<Rightarrow> 'a list \<Rightarrow> js_error + 'b list" where
  "map_throwing f [] = Inr []"
| "map_throwing f (x # xs) =
     (case f x of
        Inl e \<Rightarrow> Inl e
      | Inr y \<Rightarrow> (case map_throwing f xs of Inl e \<Rightarrow> Inl e | Inr ys \<Rightarrow> Inr (y # ys)))"

definition parseNFTLogs ::
  "(string \<Rightarrow> 8 word list) \<Rightarrow> (string \<Rightarrow> int option) \<Rightarrow> Log list \<Rightarrow> js_error + NFTLog list" where
  "parseNFTLogs keccak256 BigInt ls =
     map_throwing (nft_of_log keccak256 BigInt)
       (filter (\<lambda>lg. at_index (topics lg) 0 = Some transferTopic) ls)"

section \<open>Transfer logs as the node delivers them\<close>





text \<open>A topic as a receipt has it: \<open>0x\<close> and hex digits.\<close>

definition hex_topic :: "string \<Rightarrow> bool" where
  "hex_topic t = (take 2 t = ''0x'' \<and> list_all is_hex_char (drop 2 t))"


text \<open>An ERC-20 transfer of 1000000 units emitted by the USDC token contract.\<close>

definition usdc_transfer_log :: Log where
  "usdc_transfer_log =
     \<lparr>address = ''0x833589fCD6eDb6E08f4c7C32D4f71b54bdA02913'',
      topics = [''0xddf252ad1be2c89b69c2b068fc378daa952ba7f163c4a11628f55a4df523b3ef'',
                ''0x000000000000000000000000d8da6bf26964af9d7eed9e03e53415d37aa96045'',
                ''0x0000000000000000000000003154cf16ccdb4c6d922629664174b904d80f2c35''],
      data = ''0x00000000000000000000000000000000000000000000000000000000000f4240''\<rparr>"

section \<open>DeFiProtocolAnalyzer: impermanent loss\<close>

text \<open>
  JavaScript numbers are IEEE-754 doubles. The calculation is modelled over any number
  type \<open>'n\<close>, with the operations it uses as parameters: the number literals, division,
  multiplication, addition, subtraction, \<open>Math.sqrt\<close> and \<open>Math.abs\<close>. None of them
  throws, whatever the operands.
\<close>

record 'n number_ops =
  js_num :: "int \<Rightarrow> 'n"
  js_div :: "'n \<Rightarrow> 'n \<Rightarrow> 'n"
  js_mul :: "'n \<Rightarrow> 'n \<Rightarrow> 'n"
  js_add :: "'n \<Rightarrow> 'n \<Rightarrow> 'n"
  js_sub :: "'n \<Rightarrow> 'n \<Rightarrow> 'n"
  js_sqrt :: "'n \<Rightarrow> 'n"
  js_abs :: "'n \<Rightarrow> 'n"

definition getImpermanentLossCalculation ::
  "'n number_ops \<Rightarrow> string \<Rightarrow> 'n \<Rightarrow> 'n \<Rightarrow> js_error + 'n" where
  "getImpermanentLossCalculation ops poolAddress entryPrice currentPrice =
     (let priceRatio = js_div ops currentPrice entryPrice;
          impermanentLoss =
            js_sub ops
              (js_div ops (js_mul ops (js_num ops 2) (js_sqrt ops priceRatio))
                          (js_add ops (js_num ops 1) priceRatio))
              (js_num ops 1)
      in Inr (js_mul ops (js_abs ops impermanentLoss) (js_num ops 100)))"

text \<open>
  The exact arithmetic of the real numbers. It agrees with the doubles wherever operands
  and results are numbers a double holds exactly and no division by zero or root of a
  negative number occurs, as in the two computations it is used for below.
\<close>

definition exact_ops :: "real number_ops" where
  "exact_ops = \<lparr>js_num = of_int, js_div = (/), js_mul = (*), js_add = (+), js_sub = (-),
                js_sqrt = sqrt, js_abs = abs\<rparr>"

text \<open>
  The facts of double arithmetic behind a zero loss at an unchanged price \<open>x\<close>: a finite
  non-zero \<open>x\<close> divided by itself is 1, and the small integers are computed with exactly.
\<close>

definition unchanged_price_arithmetic :: "'n number_ops \<Rightarrow> 'n \<Rightarrow> bool" where
  "unchanged_price_arithmetic ops x =
     (js_div ops x x = js_num ops 1
      \<and> js_sqrt ops (js_num ops 1) = js_num ops 1
      \<and> js_mul ops (js_num ops 2) (js_num ops 1) = js_num ops 2
      \<and> js_add ops (js_num ops 1) (js_num ops 1) = js_num ops 2
      \<and> js_div ops (js_num ops 2) (js_num ops 2) = js_num ops 1
      \<and> js_sub ops (js_num ops 1) (js_num ops 1) = js_num ops 0
      \<and> js_abs ops (js_num ops 0) = js_num ops 0
      \<and> js_mul ops (js_num ops 0) (js_num ops 100) = js_num ops 0)"

section \<open>Gas efficiency\<close>

datatype efficiency_rating = Excellent | Good | Average | Poor

text \<open>
  Modelled from the spec: \<open>calculateGasEfficiency\<close> of \<open>BaseTransactionAnalyzer.ts\<close>, which
  is not among the sources (only its test and its callers are). Section 4.4 gives
  \<open>usagePercentage = gasUsed/gasLimit*100\<close> for a positive gas limit, with the rating
  \<open>Excellent\<close> from 90, \<open>Good\<close> from 70, \<open>Average\<close> from 40 and \<open>Poor\<close> below; with the
  limit unknown or zero the percentage is undefined and the rating is \<open>Average\<close>.
\<close>

definition gasEfficiency :: "nat \<Rightarrow> nat \<Rightarrow> real option \<times> efficiency_rating" where
  "gasEfficiency gasUsed gasLimit =
     (if gasLimit = 0 then (None, Average)
      else let usagePercentage = real gasUsed / real gasLimit * 100
           in (Some usagePercentage,
               if usagePercentage \<ge> 90 then Excellent
               else if usagePercentage \<ge> 70 then Good
               else if usagePercentage \<ge> 40 then Average
               else Poor))"

section \<open>GasOptimizer: gas cost\<close>

text \<open>\<open>BigInt.prototype.toString()\<close> of a non-negative integer: its decimal digits.\<close>

definition digit_char :: "nat \<Rightarrow> char" where
  "digit_char d = ''0123456789'' ! (d mod 10)"

function dec_string :: "nat \<Rightarrow> string" where
  "dec_string n = (if n < 10 then [digit_char n] else dec_string (n div 10) @ [digit_char (n mod 10)])"
  by pat_completeness auto
termination
  by (relation "measure id") auto

declare dec_string.simps [simp del]

text \<open>
  \<open>ethers.formatEther(wei)\<close> of ethers 6 is \<open>formatUnits(wei, 18)\<close>, that is
  \<open>FixedNumber.fromValue(wei, 18, {decimals: 18, width: 512}).toString()\<close>. The library
  is not part of the repository; the model follows its algorithm. \<open>fromValue\<close> first
  checks the value against the signed 512-bit format and throws a numeric fault, a
  \<open>RangeError\<close> with the message \<open>overflow\<close>, unless \<open>-2^511 <= val < 2^511\<close>. The
  check, \<open>checkValue(value, format, "fromValue")\<close>, also wraps the value through \<open>mask\<close>
  and \<open>fromTwos\<close> and returns it; \<open>fromValue\<close> calls it for the exception only and
  builds the number from the value it passed in. On the non-negative integers \<open>mask\<close>
  keeps the low \<open>bits\<close> bits, and for a value of at most \<open>width\<close> bits \<open>fromTwos\<close> reads
  it as two's complement.
\<close>

definition mask_value :: "int \<Rightarrow> nat \<Rightarrow> int" where
  "mask_value v bits = v mod 2 ^ bits"

definition fromTwos :: "int \<Rightarrow> nat \<Rightarrow> int" where
  "fromTwos v width =
     (if v div 2 ^ (width - 1) \<noteq> 0 then - ((2 ^ width - 1 - v) + 1) else v)"

definition checkValue :: "int \<Rightarrow> nat \<Rightarrow> js_error + int" where
  "checkValue val width =
     (let limit = 2 ^ (width - 1)
      in if - limit \<le> val \<and> val < limit
         then Inr (if val > 0 then fromTwos (mask_value val width) width
                   else - fromTwos (mask_value (- val) width) width)
         else Inl (RangeError ''overflow''))"

text \<open>
  The number is printed by the library's \<open>toString(val, decimals)\<close>: the digits are
  padded with zeros (four at a time) until there are more than \<open>decimals\<close> (here
  \<open>places\<close>) of them, the point is put in, and zeros are taken off the front of the
  whole part and off the end of the fraction while the neighbouring character is not the
  point.
\<close>

function pad_zeros :: "string \<Rightarrow> nat \<Rightarrow> string" where
  "pad_zeros str places =
     (if length str \<le> places then pad_zeros (''0000'' @ str) places else str)"
  by pat_completeness auto
termination
  by (relation "measure (\<lambda>(str, places). Suc places - length str)") auto

declare pad_zeros.simps [simp del]

text \<open>\<open>while (str[0] === "0" && str[1] !== ".") str = str.substring(1)\<close>; a character
  that is not there compares as different from the point.\<close>

fun trim_whole :: "string \<Rightarrow> string" where
  "trim_whole [] = []"
| "trim_whole [c0] = (if c0 = CHR ''0'' then [] else [c0])"
| "trim_whole (c0 # c1 # rest) =
     (if c0 = CHR ''0'' \<and> c1 \<noteq> CHR ''.'' then trim_whole (c1 # rest) else c0 # c1 # rest)"

text \<open>The same loop at the other end of the string.\<close>

definition trim_decimals :: "string \<Rightarrow> string" where
  "trim_decimals str = rev (trim_whole (rev str))"

definition fixed_toString :: "int \<Rightarrow> nat \<Rightarrow> string" where
  "fixed_toString val places =
     (let negative = (if val < 0 then ''-'' else []);
          str = dec_string (nat \<bar>val\<bar>)
      in if places = 0 then negative @ str
         else let padded = pad_zeros str places;
                  index = length padded - places;
                  pointed = take index padded @ ''.'' @ drop index padded
              in negative @ trim_decimals (trim_whole pointed))"

definition formatEther :: "int \<Rightarrow> js_error + string" where
  "formatEther wei =
     (case checkValue wei 512 of
        Inl e \<Rightarrow> Inl e
      | Inr checked \<Rightarrow> Inr (fixed_toString wei 18))"

text \<open>
  The fields of \<open>BaseTransaction\<close> that the cost reads. They are strings
  (\<open>gasUsed: '21000'\<close> in the tests) and go through JavaScript's \<open>BigInt\<close>, the parameter
  \<open>BigInt\<close> (\<open>None\<close> where it throws a \<open>SyntaxError\<close>).
\<close>

record BaseTransaction =
  gasUsed :: string
  gasPrice :: string

definition calculateGasCost ::
  "(string \<Rightarrow> int option) \<Rightarrow> BaseTransaction \<Rightarrow> js_error + string" where
  "calculateGasCost BigInt transaction =
     (case BigInt (gasUsed transaction) of
        None \<Rightarrow> Inl SyntaxError
      | Some gas_used \<Rightarrow>
     (case BigInt (gasPrice transaction) of
        None \<Rightarrow> Inl SyntaxError
      | Some gas_price \<Rightarrow>
          (let gasCostWei = gas_used * gas_price in formatEther gasCostWei)))"

text \<open>The number a decimal string \<open>whole.fraction\<close> denotes.\<close>

definition decimal_value :: "string \<Rightarrow> real" where
  "decimal_value s =
     (let whole = takeWhile (\<lambda>c. c \<noteq> CHR ''.'') s;
          fraction = drop 1 (dropWhile (\<lambda>c. c \<noteq> CHR ''.'') s)
      in real (dec_value whole) + real (dec_value fraction) / 10 ^ length fraction)"

text \<open>
  JavaScript's \<open>BigInt(s)\<close> for a string of code units below 256, used where an example
  needs the parameter: white space is trimmed off both ends; the empty string is 0; a
  literal with the prefix \<open>0x\<close>, \<open>0o\<close> or \<open>0b\<close> (in either case) is read in its base and
  takes no sign; otherwise the string is decimal digits with an optional sign. Anything
  else throws a \<open>SyntaxError\<close>.
\<close>

definition is_js_space :: "char \<Rightarrow> bool" where
  "is_js_space c = ((of_char c :: nat) \<in> set [9, 10, 11, 12, 13, 32, 160])"

definition js_trim :: "string \<Rightarrow> string" where
  "js_trim s = rev (dropWhile is_js_space (rev (dropWhile is_js_space s)))"

definition is_oct_char :: "char \<Rightarrow> bool" where
  "is_oct_char c = (c \<in> set ''01234567'')"

definition is_bin_char :: "char \<Rightarrow> bool" where
  "is_bin_char c = (c \<in> set ''01'')"

definition radix_value :: "nat \<Rightarrow> string \<Rightarrow> nat" where
  "radix_value b s = foldl (\<lambda>acc d. b * acc + d) 0 (map hex_digit_value s)"

definition BigInt_string :: "string \<Rightarrow> int option" where
  "BigInt_string s =
     (let t = js_trim s;
          prefix2 = toLowerCase (take 2 t);
          literal = drop 2 t
      in if t = [] then Some 0
         else if prefix2 = ''0x'' then
           (if literal \<noteq> [] \<and> list_all is_hex_char literal
            then Some (int (radix_value 16 literal)) else None)
         else if prefix2 = ''0o'' then
           (if literal \<noteq> [] \<and> list_all is_oct_char literal
            then Some (int (radix_value 8 literal)) else None)
         else if prefix2 = ''0b'' then
           (if literal \<noteq> [] \<and> list_all is_bin_char literal
            then Some (int (radix_value 2 literal)) else None)
         else
           (let negative = (take 1 t = ''-'');
                body = (if take 1 t = ''-'' \<or> take 1 t = ''+'' then drop 1 t else t)
            in if body \<noteq> [] \<and> list_all is_dec_char body
               then Some ((if negative then - 1 else 1) * int (radix_value 10 body))
               else None))"

text \<open>The decimal digits of \<open>2^511\<close>, the first product that \<open>formatEther\<close> refuses.\<close>

definition digits_of_2_to_511 :: string where
  "digits_of_2_to_511 =
     ''6703903964971298549787012499102923063739682910296196688861780721860882015036773488400937149083451713845015929093243025426876941405973284973216824503042048''"

section \<open>Properties of the categories\<close>

lemma categorizeTransaction_by_site:
  "categorizeTransaction tx receipt tts = site_category (categorizeTransaction_site tx receipt tts)"
  by (simp add: categorizeTransaction_def categorizeTransaction_site_def)

lemma categorizeTransaction_null_to:
  "categorizeTransaction (tx\<lparr>to := None\<rparr>) receipt tts = TRANSFER"
  by (simp add: categorizeTransaction_def is_falsy_def)

text \<open>
  Claim C1. A transaction whose \<open>to\<close> is \<open>null\<close> should be categorised as a contract
  deployment whatever its events, value and log count. The first test of
  \<open>categorizeTransaction\<close> already returns on \<open>!tx.to\<close>, so such a transaction is
  reported as a plain transfer: here a contract creation carrying no value and no logs.
\<close>

theorem C1_null_to_is_categorised_as_transfer:
  "categorizeTransaction \<lparr>to = None, value = 0\<rparr> \<lparr>logs = []\<rparr> [] = TRANSFER"
  by (simp add: categorizeTransaction_def is_falsy_def)

text \<open>
  Claim C10. Whatever the input, \<open>categorizeTransaction\<close> returns one of transfer, DeFi swap,
  contract interaction and unknown. The contract-deployment return is never reached, since
  its guard \<open>!tx.to\<close> is part of the guard before it; NFT trade, DeFi liquidity and bridge are
  returned by no statement.
\<close>

theorem C10_categories_produced:
  "(categorizeTransaction tx receipt tts = TRANSFER
      \<or> categorizeTransaction tx receipt tts = DEFI_SWAP
      \<or> categorizeTransaction tx receipt tts = CONTRACT_INTERACTION
      \<or> categorizeTransaction tx receipt tts = UNKNOWN)
   \<and> categorizeTransaction tx receipt tts = site_category (categorizeTransaction_site tx receipt tts)
   \<and> categorizeTransaction_site tx receipt tts \<noteq> ContractDeploymentSite
   \<and> categorizeTransaction tx receipt tts \<noteq> CONTRACT_DEPLOYMENT
   \<and> categorizeTransaction tx receipt tts \<noteq> NFT_TRADE
   \<and> categorizeTransaction tx receipt tts \<noteq> DEFI_LIQUIDITY
   \<and> categorizeTransaction tx receipt tts \<noteq> BRIDGE"
  by (simp add: categorizeTransaction_def categorizeTransaction_site_def)

section \<open>Properties of the case conversions\<close>

lemma of_char_lower_char:
  "(of_char (lower_char c) :: nat) =
     (if (65 \<le> (of_char c :: nat) \<and> (of_char c :: nat) \<le> 90)
          \<or> (192 \<le> (of_char c :: nat) \<and> (of_char c :: nat) \<le> 222
              \<and> (of_char c :: nat) \<noteq> 215)
      then of_char c + 32 else of_char c)"
proof (cases c)
  case (Char b0 b1 b2 b3 b4 b5 b6 b7)
  then show ?thesis
    by (cases b0; cases b1; cases b2; cases b3; cases b4; cases b5; cases b6; cases b7; simp)
qed

lemma of_char_upper_char:
  "(of_char (upper_char c) :: nat) =
     (if (97 \<le> (of_char c :: nat) \<and> (of_char c :: nat) \<le> 122)
          \<or> (224 \<le> (of_char c :: nat) \<and> (of_char c :: nat) \<le> 254
              \<and> (of_char c :: nat) \<noteq> 247)
      then of_char c - 32 else of_char c)"
proof (cases c)
  case (Char b0 b1 b2 b3 b4 b5 b6 b7)
  then show ?thesis
    by (cases b0; cases b1; cases b2; cases b3; cases b4; cases b5; cases b6; cases b7; simp)
qed

lemma lower_char_upper_char: "lower_char (upper_char c) = lower_char c"
proof -
  have "(of_char (lower_char (upper_char c)) :: nat) = of_char (lower_char c)"
    unfolding of_char_lower_char of_char_upper_char by auto
  then show ?thesis by simp
qed

lemma lower_char_idem: "lower_char (lower_char c) = lower_char c"
proof -
  have "(of_char (lower_char (lower_char c)) :: nat) = of_char (lower_char c)"
    unfolding of_char_lower_char by auto
  then show ?thesis by simp
qed

lemma case_variant_toLowerCase:
  "case_variant a b \<Longrightarrow> toLowerCase a = toLowerCase b"
  unfolding case_variant_def toLowerCase_def
  by (induction a b rule: list_all2_induct)
     (auto simp: lower_char_upper_char lower_char_idem)

lemma toLowerCase_no_upper: "\<not> has_ascii_upper (toLowerCase a)"
  by (induction a) (auto simp: has_ascii_upper_def toLowerCase_def of_char_lower_char)

section \<open>Properties of the address lookups\<close>

lemma BASE_CONTRACTS_lookup:
  "list_all
     (\<lambda>c. find (\<lambda>contract. toLowerCase (contract_address contract)
                                = toLowerCase (contract_address c)) BASE_CONTRACTS = Some c)
     BASE_CONTRACTS"
  by (simp add: BASE_CONTRACTS_def toLowerCase_def)

text \<open>\<open>getContractInfo\<close> is the case-insensitive lookup: every case variant of a listed
  address finds its row, and an address that is listed in no case finds none.\<close>

lemma getContractInfo_case_variant:
  assumes "contract \<in> set BASE_CONTRACTS" and "case_variant a (contract_address contract)"
  shows "getContractInfo a = Some contract"
proof -
  have low: "toLowerCase a = toLowerCase (contract_address contract)"
    using assms(2) by (rule case_variant_toLowerCase)
  from assms(1) BASE_CONTRACTS_lookup show ?thesis
    unfolding getContractInfo_def low list_all_iff by blast
qed

lemma getContractInfo_not_found:
  assumes "toLowerCase a \<notin> set (map (\<lambda>c. toLowerCase (contract_address c)) BASE_CONTRACTS)"
  shows "getContractInfo a = None"
  unfolding getContractInfo_def find_None_iff
proof
  assume "\<exists>x. x \<in> set BASE_CONTRACTS \<and> toLowerCase (contract_address x) = toLowerCase a"
  then obtain x where "x \<in> set BASE_CONTRACTS"
    and "toLowerCase (contract_address x) = toLowerCase a"
    by blast
  then have "toLowerCase a \<in> set (map (\<lambda>c. toLowerCase (contract_address c)) BASE_CONTRACTS)"
    by force
  with assms show False by contradiction
qed

lemma protocol_addresses_have_upper:
  "list_all (\<lambda>p. list_all has_ascii_upper (Object_values (contractAddresses p)))
     (map snd protocols)"
  by (simp add: protocols_def Object_values_def has_ascii_upper_def)

text \<open>\<open>detectProtocol\<close> lower-cases its argument and compares it with the stored addresses
  as written. Each stored address has an upper-case letter, so nothing is ever found.\<close>

lemma detectProtocol_never_matches: "detectProtocol a = None"
proof -
  have "toLowerCase s \<notin> set (Object_values (contractAddresses p))"
    if "p \<in> set (map snd protocols)" for p s
  proof -
    from that protocol_addresses_have_upper
    have "list_all has_ascii_upper (Object_values (contractAddresses p))"
      unfolding list_all_iff by blast
    then show ?thesis
      unfolding list_all_iff using toLowerCase_no_upper by metis
  qed
  then show ?thesis
    unfolding detectProtocol_def by (simp add: find_None_iff)
qed

text \<open>
  Claim C6. Lookup by address is meant to be case-insensitive: every case variant of a
  listed address finds its entry. \<open>getContractInfo\<close> does that. \<open>detectProtocol\<close> does not:
  the Uniswap V3 router address, written exactly as \<open>initializeProtocols\<close> stores it, is one
  of the stored addresses and yet is not detected, while \<open>getContractInfo\<close> finds the same
  address in \<open>BASE_CONTRACTS\<close>.
\<close>

theorem C6_detectProtocol_misses_stored_address:
  "''0x2626664c2603336E57B271c5C0b26F421741e481''
     \<in> set (concat (map (\<lambda>p. Object_values (contractAddresses (snd p))) protocols))
   \<and> detectProtocol (Some ''0x2626664c2603336E57B271c5C0b26F421741e481'') = None
   \<and> getContractInfo ''0x2626664c2603336E57B271c5C0b26F421741e481''
       = Some \<lparr>contract_name = ''Uniswap V3 Router'',
               contract_address = ''0x2626664c2603336E57B271c5C0b26F421741e481'',
               category = defi\<rparr>"
  by (simp add: detectProtocol_def protocols_def Object_values_def
      is_falsy_def toLowerCase_def getContractInfo_def BASE_CONTRACTS_def)

section \<open>Properties of the bridge direction\<close>

lemma some_topic0_total:
  "list_all (\<lambda>lg. topics lg \<noteq> []) ls \<Longrightarrow>
   some_topic0_includes_Proven ls = Inr (list_ex (\<lambda>lg. str_includes (hd (topics lg)) ''Proven'') ls)"
proof (induction ls)
  case Nil
  then show ?case by simp
next
  case (Cons lg rest)
  then obtain t ts where "topics lg = t # ts"
    by (cases "topics lg") auto
  with Cons show ?case by simp
qed

lemma lowered_bridge_addresses:
  "toLowerCase l1StandardBridge = ''0x3154cf16ccdb4c6d922629664174b904d80f2c35''"
  "toLowerCase l2StandardBridge = ''0x4200000000000000000000000000000000000010''"
  "toLowerCase optimismPortal = ''0x49048044d57e1c92a77f79988d21fa8faf74e97e''"
  by (simp_all add: l1StandardBridge_def l2StandardBridge_def optimismPortal_def toLowerCase_def)

lemma toLowerCase_nonempty: "toLowerCase t = c # cs \<Longrightarrow> \<not> is_falsy (Some t)"
  by (auto simp: toLowerCase_def is_falsy_def)

text \<open>
  A destination that is the L1 standard bridge in any case gives \<open>deposit\<close>, the L2
  standard bridge \<open>withdrawal\<close>. For the portal, when every log has at least one topic,
  the direction is \<open>prove\<close> exactly when the first topic of some log contains
  \<open>Proven\<close>, and \<open>finalize\<close> otherwise.
\<close>

lemma bridge_direction_with_topics:
  "(toLowerCase t = toLowerCase l1StandardBridge \<longrightarrow> determineBridgeDirection (Some t) ls = Inr deposit)
   \<and> (toLowerCase t = toLowerCase l2StandardBridge \<longrightarrow> determineBridgeDirection (Some t) ls = Inr withdrawal)
   \<and> (toLowerCase t = toLowerCase optimismPortal \<and> list_all (\<lambda>lg. topics lg \<noteq> []) ls \<longrightarrow>
        determineBridgeDirection (Some t) ls
          = Inr (if list_ex (\<lambda>lg. str_includes (hd (topics lg)) ''Proven'') ls then prove else finalize))"
proof (intro conjI impI)
  assume a: "toLowerCase t = toLowerCase l1StandardBridge"
  then have "\<not> is_falsy (Some t)"
    unfolding lowered_bridge_addresses by (rule toLowerCase_nonempty)
  with a show "determineBridgeDirection (Some t) ls = Inr deposit"
    by (simp add: determineBridgeDirection_def)
next
  assume a: "toLowerCase t = toLowerCase l2StandardBridge"
  then have "\<not> is_falsy (Some t)"
    unfolding lowered_bridge_addresses by (rule toLowerCase_nonempty)
  with a show "determineBridgeDirection (Some t) ls = Inr withdrawal"
    by (simp add: determineBridgeDirection_def lowered_bridge_addresses)
next
  assume a: "toLowerCase t = toLowerCase optimismPortal \<and> list_all (\<lambda>lg. topics lg \<noteq> []) ls"
  then have "\<not> is_falsy (Some t)"
    unfolding lowered_bridge_addresses using toLowerCase_nonempty by blast
  with a show "determineBridgeDirection (Some t) ls
          = Inr (if list_ex (\<lambda>lg. str_includes (hd (topics lg)) ''Proven'') ls then prove else finalize)"
    by (simp add: determineBridgeDirection_def lowered_bridge_addresses some_topic0_total)
qed

text \<open>
  A topic of a receipt is \<open>0x\<close> and hex digits and so contains no \<open>P\<close>: on receipts
  whose logs all have topics, the portal rule of the specification and the scan of the
  code agree, on \<open>finalize\<close>.
\<close>

lemma str_includes_subset: "str_includes s sub \<Longrightarrow> set sub \<subseteq> set s"
proof (induction s)
  case Nil
  then show ?case by simp
next
  case (Cons c cs)
  from Cons.prems have "prefix sub (c # cs) \<or> str_includes cs sub"
    by simp
  then show ?case
  proof
    assume "prefix sub (c # cs)"
    then show ?thesis by (rule set_mono_prefix)
  next
    assume "str_includes cs sub"
    with Cons.IH show ?thesis by auto
  qed
qed

lemma hex_topic_without_marker: "hex_topic t \<Longrightarrow> \<not> str_includes t ''Proven''"
proof
  assume h: "hex_topic t" and "str_includes t ''Proven''"
  then have "CHR ''P'' \<in> set t"
    using str_includes_subset by fastforce
  moreover from h have "t = ''0x'' @ drop 2 t"
    unfolding hex_topic_def by (metis append_take_drop_id)
  ultimately have "CHR ''P'' \<in> set (''0x'' @ drop 2 t)"
    by simp
  then have "CHR ''P'' \<in> set (drop 2 t)"
    by simp
  with h have "is_hex_char CHR ''P''"
    unfolding hex_topic_def list_all_iff by blast
  then show False
    by (simp add: is_hex_char_def)
qed

lemma spec_portal_direction_hex_topics:
  "list_all (\<lambda>lg. list_all hex_topic (topics lg)) ls \<Longrightarrow> spec_portal_direction ls = finalize"
proof -
  assume "list_all (\<lambda>lg. list_all hex_topic (topics lg)) ls"
  then have "\<not> list_ex (\<lambda>lg. list_ex (\<lambda>t. str_includes t ''Proven'') (topics lg)) ls"
    unfolding list_all_iff list_ex_iff using hex_topic_without_marker by blast
  then show ?thesis
    by (simp add: spec_portal_direction_def)
qed

lemma portal_direction_hex_topics:
  assumes "toLowerCase t = toLowerCase optimismPortal"
    and "list_all (\<lambda>lg. topics lg \<noteq> [] \<and> list_all hex_topic (topics lg)) ls"
  shows "determineBridgeDirection (Some t) ls = Inr finalize"
proof -
  from assms(2) have ne: "list_all (\<lambda>lg. topics lg \<noteq> []) ls"
    unfolding list_all_iff by blast
  have "\<not> list_ex (\<lambda>lg. str_includes (hd (topics lg)) ''Proven'') ls"
  proof
    assume "list_ex (\<lambda>lg. str_includes (hd (topics lg)) ''Proven'') ls"
    then obtain lg where lg: "lg \<in> set ls" "str_includes (hd (topics lg)) ''Proven''"
      unfolding list_ex_iff by blast
    with assms(2) have "topics lg \<noteq> []" "list_all hex_topic (topics lg)"
      unfolding list_all_iff by blast+
    then have "hex_topic (hd (topics lg))"
      unfolding list_all_iff by simp
    with lg(2) hex_topic_without_marker show False by blast
  qed
  with bridge_direction_with_topics [of t ls] assms(1) ne show ?thesis
    by simp
qed

text \<open>
  Claim C5. For a destination that is the portal the direction should be \<open>prove\<close> when
  some log topic contains the marker and \<open>finalize\<close> otherwise. The scan reads
  \<open>log.topics[0].includes\<close> with no check that the log has a topic: a receipt with a
  log of an anonymous event without topics has no topic containing the marker, so the
  stated rule gives \<open>finalize\<close>, and the code throws a \<open>TypeError\<close> instead of
  returning a direction.
\<close>

theorem C5_topicless_log_throws:
  "determineBridgeDirection (Some ''0x49048044D57e1C92A77f79988d21Fa8fAF74E97e'')
     [topicless_log] = Inl TypeError
   \<and> spec_portal_direction [topicless_log] = finalize"
  by (simp add: determineBridgeDirection_def is_falsy_def toLowerCase_def l1StandardBridge_def
      l2StandardBridge_def optimismPortal_def topicless_log_def spec_portal_direction_def)

section \<open>Properties of the log decoders\<close>



























lemma extract_loop_acc:
  "extract_loop keccak256 ls acc = acc @ extract_loop keccak256 ls []"
proof (induction ls arbitrary: acc)
  case Nil
  then show ?case by simp
next
  case (Cons lg rest)
  show ?case
    using Cons [of "acc @ [x]" for x] Cons [of acc] Cons [of "[x]" for x]
    by (simp split: sum.splits)
qed

lemma extract_loop_append:
  "extract_loop keccak256 (xs @ ys) acc
     = extract_loop keccak256 ys (extract_loop keccak256 xs acc)"
  by (induction xs arbitrary: acc) simp_all

text \<open>A log that the guard or the \<open>try\<close> block rejects leaves no trace in the result.\<close>

lemma extract_skips_rejected:
  assumes "at_index (topics lg) 0 \<noteq> Some transferEventSignature
           \<or> length (topics lg) \<noteq> 3
           \<or> isl (parse_transfer keccak256 lg)"
  shows "extractTokenTransfers keccak256 \<lparr>logs = pre @ lg # post\<rparr>
           = extractTokenTransfers keccak256 \<lparr>logs = pre @ post\<rparr>"
  using assms
  by (auto simp: extractTokenTransfers_def extract_loop_append isl_def)

lemma parse_transfer_rejects:
  assumes "length (drop 26 (topics lg ! 1)) \<noteq> 40
           \<or> \<not> list_all is_hex_char (drop 26 (topics lg ! 1))
           \<or> length (drop 26 (topics lg ! 2)) \<noteq> 40
           \<or> \<not> list_all is_hex_char (drop 26 (topics lg ! 2))
           \<or> isl (BigNumber_from (data lg))"
    and "length (topics lg) = 3"
  shows "isl (parse_transfer keccak256 lg)"
proof -
  from assms(2) obtain t0 t1 t2 where ts: "topics lg = [t0, t1, t2]"
    by (cases "topics lg"; simp; rename_tac a l; case_tac l; simp; rename_tac b m; case_tac m; simp)
  with assms(1) show ?thesis
    by (auto simp: parse_transfer_def address_of_topic_def getAddress_0x_def Let_def isl_def
        numeral_2_eq_2 split: sum.splits)
qed

lemma extract_decimals_18_loop:
  "list_all (\<lambda>t. decimals t = 18) acc \<Longrightarrow>
   list_all (\<lambda>t. decimals t = 18) (extract_loop keccak256 ls acc)"
proof (induction ls arbitrary: acc)
  case Nil
  then show ?case by simp
next
  case (Cons lg rest)
  have "list_all (\<lambda>t. decimals t = 18) (acc @ [t])"
    if "parse_transfer keccak256 lg = Inr t" for t
    using that Cons.prems by (auto simp: parse_transfer_def split: sum.splits)
  with Cons show ?case
    by (auto split: sum.splits)
qed

lemma extract_decimals_18:
  "list_all (\<lambda>t. decimals t = 18) (extractTokenTransfers keccak256 receipt)"
  by (simp add: extractTokenTransfers_def extract_decimals_18_loop)

text \<open>
  Claim C4. The decimals of a decoded transfer should come from the token table: 6 for
  USDC. \<open>extractTokenTransfers\<close> writes the constant 18 into every transfer (the source
  marks it \<open>Default, should be fetched from contract\<close>), also for a transfer emitted by
  the USDC contract, which it does recognise by symbol and for which \<open>getTokenInfo\<close> holds
  6 decimals.
\<close>

theorem C4_usdc_decimals:
  "map decimals (extractTokenTransfers keccak256 \<lparr>logs = [usdc_transfer_log]\<rparr>) = [18]
   \<and> map_option token_decimals (getTokenInfo (address usdc_transfer_log)) = Some 6
   \<and> map_option token_symbol (getTokenInfo (address usdc_transfer_log)) = Some ''USDC''
   \<and> map symbol (extractTokenTransfers keccak256 \<lparr>logs = [usdc_transfer_log]\<rparr>) = [''USDC'']"
  by (simp add: extractTokenTransfers_def usdc_transfer_log_def transferEventSignature_def
      parse_transfer_def address_of_topic_def getAddress_0x_def is_hex_char_def mixed_case_def
      BigNumber_from_def Let_def toLowerCase_def getTokenInfo_def BASE_TOKENS_def
      symbol_of_def knownContracts_def numeral_2_eq_2)

text \<open>
  Claim C2. A log that is not a well-formed transfer should be left out without an
  exception. \<open>extractTokenTransfers\<close> does so (\<open>extract_skips_rejected\<close> above).
  \<open>parseNFTLogs\<close> filters on the signature alone and converts \<open>topics[3]\<close> with no
  \<open>try\<close> around it: an ERC-20 transfer, which has three topics, makes the whole call throw,
  whatever logs follow it, while \<open>extractTokenTransfers\<close> decodes the same log.
\<close>

theorem C2_parseNFTLogs_throws:
  "parseNFTLogs keccak256 BigInt (usdc_transfer_log # rest)
     = Inl (InvalidArgument ''invalid BigNumberish value'')
   \<and> length (extractTokenTransfers keccak256 \<lparr>logs = [usdc_transfer_log]\<rparr>) = 1"
  by (simp add: parseNFTLogs_def usdc_transfer_log_def transferTopic_def nft_of_log_def
      toBigInt_def eval_nat_numeral
      extractTokenTransfers_def transferEventSignature_def
      parse_transfer_def address_of_topic_def getAddress_0x_def is_hex_char_def mixed_case_def
      BigNumber_from_def Let_def toLowerCase_def)


section \<open>Properties of the impermanent loss\<close>

text \<open>
  Claim C7, as the code has it. For every pair of prices the function returns the value of
  \<open>|2*sqrt(r)/(1+r) - 1| * 100\<close> with \<open>r = currentPrice/entryPrice\<close>, computed with the
  operations of the number type, and it returns it as a value: nothing is checked and
  nothing is thrown, also for an entry price of zero or below. At an unchanged price the
  result is exactly 0, given the facts of double arithmetic at that price. With exact
  arithmetic in place of the doubles, a positive entry price and a current price that is
  not negative, the value is the formula over the reals.
\<close>

theorem C7_impermanent_loss:
  "getImpermanentLossCalculation ops poolAddress entryPrice currentPrice
     = Inr (js_mul ops
              (js_abs ops
                 (js_sub ops
                    (js_div ops
                       (js_mul ops (js_num ops 2)
                          (js_sqrt ops (js_div ops currentPrice entryPrice)))
                       (js_add ops (js_num ops 1) (js_div ops currentPrice entryPrice)))
                    (js_num ops 1)))
              (js_num ops 100))
   \<and> (unchanged_price_arithmetic ops price \<longrightarrow>
        getImpermanentLossCalculation ops poolAddress price price = Inr (js_num ops 0))
   \<and> (0 < entry \<and> 0 \<le> current \<longrightarrow>
        getImpermanentLossCalculation exact_ops poolAddress entry current
          = Inr (\<bar>2 * sqrt (current / entry) / (1 + current / entry) - 1\<bar> * 100))"
  by (simp add: getImpermanentLossCalculation_def unchanged_price_arithmetic_def exact_ops_def
      Let_def)

theorem C7_impermanent_loss_witness:
  "unchanged_price_arithmetic exact_ops 2000
   \<and> getImpermanentLossCalculation exact_ops ''0x1234567890123456789012345678901234567890''
         2000 2000 = Inr 0
   \<and> (0::real) < 2000 \<and> (0::real) \<le> 2500
   \<and> getImpermanentLossCalculation exact_ops ''0x1234567890123456789012345678901234567890''
         2000 2500 = Inr (\<bar>2 * sqrt (5 / 4) / (9 / 4) - 1\<bar> * 100)"
proof -
  have h: "unchanged_price_arithmetic exact_ops 2000"
    by (simp add: unchanged_price_arithmetic_def exact_ops_def)
  have p: "(0::real) < 2000 \<and> (0::real) \<le> 2500"
    by simp
  from h C7_impermanent_loss
         [of exact_ops "''0x1234567890123456789012345678901234567890''" 2000 2000 2000]
  have "getImpermanentLossCalculation exact_ops ''0x1234567890123456789012345678901234567890''
          2000 2000 = Inr (js_num exact_ops 0)"
    by blast
  then have zero: "getImpermanentLossCalculation exact_ops
                     ''0x1234567890123456789012345678901234567890'' 2000 2000 = Inr 0"
    by (simp add: exact_ops_def)
  from p C7_impermanent_loss
         [of exact_ops "''0x1234567890123456789012345678901234567890''" 2000 2000 _ 2000 2500]
  have "getImpermanentLossCalculation exact_ops ''0x1234567890123456789012345678901234567890''
          2000 2500 = Inr (\<bar>2 * sqrt (2500 / 2000) / (1 + 2500 / 2000) - 1\<bar> * 100)"
    by blast
  then have loss: "getImpermanentLossCalculation exact_ops
                     ''0x1234567890123456789012345678901234567890'' 2000 2500
                   = Inr (\<bar>2 * sqrt (5 / 4) / (9 / 4) - 1\<bar> * 100)"
    by simp
  from h zero p loss show ?thesis by blast
qed

text \<open>
  The claim as stated makes an entry price of zero or below an error. At entry price -1 and
  current price 0 the function returns the number 100; every operand and result of this
  computation is held exactly by a double, so the exact arithmetic is the code's here.
\<close>

theorem C7_no_error_counterexample:
  "getImpermanentLossCalculation exact_ops ''0x1234567890123456789012345678901234567890''
     (- 1) 0 = Inr 100"
  by (simp add: getImpermanentLossCalculation_def exact_ops_def Let_def)

section \<open>Properties of the gas metrics\<close>

text \<open>
  Claim C8. For a positive gas limit the usage percentage is \<open>gasUsed/gasLimit*100\<close> and the
  rating follows the thresholds 90, 70 and 40, which in whole gas units are the comparisons
  of \<open>100 * gasUsed\<close> with \<open>90\<close>, \<open>70\<close> and \<open>40\<close> times the limit; 21000 of 21000 is 100
  percent and excellent, 5000 of 100000 is 5 percent and poor.
\<close>

theorem C8_gas_efficiency:
  "(0 < limit \<longrightarrow>
      fst (gasEfficiency used limit) = Some (real used / real limit * 100)
      \<and> snd (gasEfficiency used limit)
          = (if real used / real limit * 100 \<ge> 90 then Excellent
             else if real used / real limit * 100 \<ge> 70 then Good
             else if real used / real limit * 100 \<ge> 40 then Average
             else Poor)
      \<and> (snd (gasEfficiency used limit) = Excellent \<longleftrightarrow> 90 * limit \<le> 100 * used)
      \<and> (snd (gasEfficiency used limit) = Good
           \<longleftrightarrow> 70 * limit \<le> 100 * used \<and> 100 * used < 90 * limit)
      \<and> (snd (gasEfficiency used limit) = Average
           \<longleftrightarrow> 40 * limit \<le> 100 * used \<and> 100 * used < 70 * limit)
      \<and> (snd (gasEfficiency used limit) = Poor \<longleftrightarrow> 100 * used < 40 * limit))
   \<and> gasEfficiency 21000 21000 = (Some 100, Excellent)
   \<and> gasEfficiency 5000 100000 = (Some 5, Poor)"
proof (intro conjI impI)
  assume pos: "0 < limit"
  let ?p = "real used / real limit * 100"
  have e90: "?p \<ge> 90 \<longleftrightarrow> 90 * limit \<le> 100 * used"
  proof -
    have "?p \<ge> 90 \<longleftrightarrow> 90 * real limit \<le> 100 * real used"
      using pos by (simp add: field_simps)
    also have "\<dots> \<longleftrightarrow> real (90 * limit) \<le> real (100 * used)" by simp
    also have "\<dots> \<longleftrightarrow> 90 * limit \<le> 100 * used" by (rule of_nat_le_iff)
    finally show ?thesis .
  qed
  have e70: "?p \<ge> 70 \<longleftrightarrow> 70 * limit \<le> 100 * used"
  proof -
    have "?p \<ge> 70 \<longleftrightarrow> 70 * real limit \<le> 100 * real used"
      using pos by (simp add: field_simps)
    also have "\<dots> \<longleftrightarrow> real (70 * limit) \<le> real (100 * used)" by simp
    also have "\<dots> \<longleftrightarrow> 70 * limit \<le> 100 * used" by (rule of_nat_le_iff)
    finally show ?thesis .
  qed
  have e40: "?p \<ge> 40 \<longleftrightarrow> 40 * limit \<le> 100 * used"
  proof -
    have "?p \<ge> 40 \<longleftrightarrow> 40 * real limit \<le> 100 * real used"
      using pos by (simp add: field_simps)
    also have "\<dots> \<longleftrightarrow> real (40 * limit) \<le> real (100 * used)" by simp
    also have "\<dots> \<longleftrightarrow> 40 * limit \<le> 100 * used" by (rule of_nat_le_iff)
    finally show ?thesis .
  qed
  show "fst (gasEfficiency used limit) = Some ?p"
    using pos by (simp add: gasEfficiency_def Let_def)
  show "snd (gasEfficiency used limit)
          = (if ?p \<ge> 90 then Excellent else if ?p \<ge> 70 then Good
             else if ?p \<ge> 40 then Average else Poor)"
    using pos by (simp add: gasEfficiency_def Let_def)
  show "snd (gasEfficiency used limit) = Excellent \<longleftrightarrow> 90 * limit \<le> 100 * used"
    using pos e90 e70 e40 by (auto simp: gasEfficiency_def Let_def)
  show "snd (gasEfficiency used limit) = Good
          \<longleftrightarrow> 70 * limit \<le> 100 * used \<and> 100 * used < 90 * limit"
    using pos e90 e70 e40 by (auto simp: gasEfficiency_def Let_def)
  show "snd (gasEfficiency used limit) = Average
          \<longleftrightarrow> 40 * limit \<le> 100 * used \<and> 100 * used < 70 * limit"
    using pos e90 e70 e40 by (auto simp: gasEfficiency_def Let_def)
  show "snd (gasEfficiency used limit) = Poor \<longleftrightarrow> 100 * used < 40 * limit"
    using pos e90 e70 e40 by (auto simp: gasEfficiency_def Let_def)
next
  show "gasEfficiency 21000 21000 = (Some 100, Excellent)"
    by (simp add: gasEfficiency_def)
  show "gasEfficiency 5000 100000 = (Some 5, Poor)"
    by (simp add: gasEfficiency_def)
qed

theorem C8_gas_efficiency_witness:
  "(0::nat) < 200000
   \<and> gasEfficiency 150000 200000 = (Some 75, Good)
   \<and> gasEfficiency 190000 200000 = (Some 95, Excellent)
   \<and> gasEfficiency 100000 200000 = (Some 50, Average)
   \<and> gasEfficiency 79999 200000 = (Some (79999 / 2000), Poor)"
proof -
  have pos: "(0::nat) < 200000" by simp
  have "fst (gasEfficiency 150000 200000) = Some 75 \<and> snd (gasEfficiency 150000 200000) = Good"
    using C8_gas_efficiency [of 200000 150000] pos by simp
  moreover have "fst (gasEfficiency 190000 200000) = Some 95
                 \<and> snd (gasEfficiency 190000 200000) = Excellent"
    using C8_gas_efficiency [of 200000 190000] pos by simp
  moreover have "fst (gasEfficiency 100000 200000) = Some 50
                 \<and> snd (gasEfficiency 100000 200000) = Average"
    using C8_gas_efficiency [of 200000 100000] pos by simp
  moreover have "fst (gasEfficiency 79999 200000) = Some (79999 / 2000)
                 \<and> snd (gasEfficiency 79999 200000) = Poor"
    using C8_gas_efficiency [of 200000 79999] pos by simp
  ultimately show ?thesis
    using pos by (simp add: prod_eq_iff)
qed


lemma lt10_cases:
  "(d::nat) < 10 \<Longrightarrow> d = 0 \<or> d = 1 \<or> d = 2 \<or> d = 3 \<or> d = 4 \<or> d = 5 \<or> d = 6 \<or> d = 7
      \<or> d = 8 \<or> d = 9"
  by arith

lemma digit_char_props:
  assumes "d < 10"
  shows "is_dec_char (digit_char d)" and "hex_digit_value (digit_char d) = d"
  using lt10_cases [OF assms]
  by (auto simp: digit_char_def is_dec_char_def hex_digit_value_def)

lemma is_dec_char_not_point: "is_dec_char c \<Longrightarrow> c \<noteq> CHR ''.''"
  by (auto simp: is_dec_char_def)

lemma dec_value_foldl:
  "foldl (\<lambda>acc d. 10 * acc + d) (a::nat) ds
     = a * 10 ^ length ds + foldl (\<lambda>acc d. 10 * acc + d) 0 ds"
proof (induction ds arbitrary: a)
  case Nil
  then show ?case by simp
next
  case (Cons d ds)
  show ?case
    using Cons [of "10 * a + d"] Cons [of d] by (simp add: algebra_simps)
qed

lemma dec_value_append:
  "dec_value (a @ b) = dec_value a * 10 ^ length b + dec_value b"
  using dec_value_foldl [of "dec_value a" "map hex_digit_value b"]
  by (simp add: dec_value_def)

lemma dec_value_zeros: "dec_value (replicate k CHR ''0'') = 0"
  by (induction k) (simp_all add: dec_value_def hex_digit_value_def)


lemma dec_value_leading_zeros: "dec_value (replicate k CHR ''0'' @ s) = dec_value s"
  by (simp add: dec_value_append dec_value_zeros)

lemma dec_value_trailing_zeros: "dec_value (s @ replicate k CHR ''0'') = dec_value s * 10 ^ k"
  by (simp add: dec_value_append dec_value_zeros)

lemma dec_value_single: "dec_value [c] = hex_digit_value c"
  by (simp add: dec_value_def)

lemma replicate_4: "replicate 4 x = [x, x, x, x]"
proof -
  have "(4::nat) = Suc (Suc (Suc (Suc 0)))" by simp
  then show ?thesis by (simp only: replicate.simps)
qed

lemma dec_string_props:
  "list_all is_dec_char (dec_string n) \<and> dec_value (dec_string n) = n \<and> dec_string n \<noteq> []"
proof (induction n rule: dec_string.induct)
  case (1 n)
  show ?case
  proof (cases "n < 10")
    case True
    then show ?thesis
      by (simp add: dec_string.simps [of n] digit_char_props dec_value_single)
  next
    case False
    with 1 have ih: "list_all is_dec_char (dec_string (n div 10))"
      "dec_value (dec_string (n div 10)) = n div 10"
      by simp_all
    have "n mod 10 < 10" by simp
    with ih False show ?thesis
      by (simp add: dec_string.simps [of n] digit_char_props dec_value_append dec_value_single)
  qed
qed

lemma pad_zeros_props:
  "\<exists>k. pad_zeros s d = replicate k CHR ''0'' @ s \<and> d < length (pad_zeros s d)"
proof (induction s d rule: pad_zeros.induct)
  case (1 str places)
  show ?case
  proof (cases "length str \<le> places")
    case True
    with 1 obtain k where k: "pad_zeros (''0000'' @ str) places = replicate k CHR ''0'' @ ''0000'' @ str"
      and len: "places < length (pad_zeros (''0000'' @ str) places)"
      by blast
    have "replicate k CHR ''0'' @ ''0000'' @ str = replicate (k + 4) CHR ''0'' @ str"
      by (simp add: replicate_add replicate_4)
    with k have k4: "pad_zeros (''0000'' @ str) places = replicate (k + 4) CHR ''0'' @ str"
      by simp
    have eq: "pad_zeros str places = pad_zeros (''0000'' @ str) places"
      using True by (subst pad_zeros.simps) simp
    from k4 len show ?thesis
      unfolding eq by blast
  next
    case False
    then have "pad_zeros str places = str"
      by (simp add: pad_zeros.simps [of str])
    with False have "pad_zeros str places = replicate 0 CHR ''0'' @ str
                     \<and> places < length (pad_zeros str places)"
      by simp
    then show ?thesis by blast
  qed
qed

lemma trim_whole_props:
  assumes "w \<noteq> []" and "list_all is_dec_char w"
  shows "\<exists>k w'. w = replicate k CHR ''0'' @ w' \<and> w' \<noteq> []
              \<and> trim_whole (w @ CHR ''.'' # f) = w' @ CHR ''.'' # f"
  using assms
proof (induction w)
  case Nil
  then show ?case by simp
next
  case (Cons c w)
  note IH = Cons.IH and prems = Cons.prems
  show ?case
  proof (cases w)
    case Nil
    then have "c # w = replicate 0 CHR ''0'' @ [c] \<and> [c] \<noteq> []
               \<and> trim_whole ((c # w) @ CHR ''.'' # f) = [c] @ CHR ''.'' # f"
      by simp
    then show ?thesis by blast
  next
    case (Cons c' w'')
    with prems have c': "c' \<noteq> CHR ''.''" and w: "w \<noteq> []" "list_all is_dec_char w"
      by (simp_all add: is_dec_char_not_point)
    show ?thesis
    proof (cases "c = CHR ''0''")
      case True
      from IH [OF w] obtain k w' where
        k: "w = replicate k CHR ''0'' @ w'" "w' \<noteq> []"
           "trim_whole (w @ CHR ''.'' # f) = w' @ CHR ''.'' # f"
        by blast
      from k(1) True have "c # w = replicate (Suc k) CHR ''0'' @ w'"
        by simp
      moreover from True c' Cons k(3) have "trim_whole ((c # w) @ CHR ''.'' # f) = w' @ CHR ''.'' # f"
        by simp
      ultimately show ?thesis
        using k(2) by blast
    next
      case False
      with Cons have "c # w = replicate 0 CHR ''0'' @ (c # w) \<and> c # w \<noteq> []
               \<and> trim_whole ((c # w) @ CHR ''.'' # f) = (c # w) @ CHR ''.'' # f"
        by simp
      then show ?thesis by blast
    qed
  qed
qed

lemma trim_decimals_props:
  assumes "f \<noteq> []" and "list_all is_dec_char f"
  shows "\<exists>k f'. f = f' @ replicate k CHR ''0'' \<and> f' \<noteq> []
              \<and> trim_decimals (w @ CHR ''.'' # f) = w @ CHR ''.'' # f'"
proof -
  have "rev f \<noteq> []" "list_all is_dec_char (rev f)"
    using assms by (simp_all add: list_all_iff)
  from trim_whole_props [OF this, of "rev w"] obtain k r where
    r: "rev f = replicate k CHR ''0'' @ r" "r \<noteq> []"
       "trim_whole (rev f @ CHR ''.'' # rev w) = r @ CHR ''.'' # rev w"
    by blast
  from r(1) have "f = rev r @ replicate k CHR ''0''"
    by (metis rev_append rev_replicate rev_rev_ident)
  moreover have "trim_decimals (w @ CHR ''.'' # f) = w @ CHR ''.'' # rev r"
    by (simp add: trim_decimals_def r(3))
  ultimately show ?thesis
    using r(2) by (metis rev_is_Nil_conv)
qed

lemma decimal_value_split:
  assumes "list_all is_dec_char w"
  shows "decimal_value (w @ CHR ''.'' # f) = real (dec_value w) + real (dec_value f) / 10 ^ length f"
proof -
  have "\<forall>c\<in>set w. c \<noteq> CHR ''.''"
    using assms by (auto simp: list_all_iff is_dec_char_not_point)
  then have "takeWhile (\<lambda>c. c \<noteq> CHR ''.'') (w @ CHR ''.'' # f) = w"
    and "dropWhile (\<lambda>c. c \<noteq> CHR ''.'') (w @ CHR ''.'' # f) = CHR ''.'' # f"
    by simp_all
  then show ?thesis
    by (simp add: decimal_value_def)
qed

lemma fixed_toString_nat:
  "\<exists>w f. fixed_toString (int n) 18 = w @ CHR ''.'' # f
         \<and> w \<noteq> [] \<and> list_all is_dec_char w
         \<and> f \<noteq> [] \<and> length f \<le> 18 \<and> list_all is_dec_char f
         \<and> real (dec_value w) + real (dec_value f) / 10 ^ length f = real n / 10 ^ 18"
proof -
  obtain k0 where padded: "pad_zeros (dec_string n) 18 = replicate k0 CHR ''0'' @ dec_string n"
    and long: "18 < length (pad_zeros (dec_string n) 18)"
    using pad_zeros_props by blast
  define p where "p = pad_zeros (dec_string n) 18"
  define whole where "whole = take (length p - 18) p"
  define frac where "frac = drop (length p - 18) p"
  have zero_digit: "is_dec_char CHR ''0''"
    by (simp add: is_dec_char_def)
  have p_digits: "list_all is_dec_char p"
    unfolding p_def padded using dec_string_props [of n] zero_digit
    by (auto simp: list_all_iff)
  have p_value: "dec_value p = n"
    unfolding p_def padded using dec_string_props [of n]
    by (simp add: dec_value_leading_zeros)
  have split: "p = whole @ frac"
    by (simp add: whole_def frac_def)
  have frac_len: "length frac = 18"
    using long by (simp add: frac_def p_def)
  have whole_ne: "whole \<noteq> []"
    using long by (auto simp: whole_def p_def)
  have whole_digits: "list_all is_dec_char whole" and frac_digits: "list_all is_dec_char frac"
    using p_digits unfolding split by simp_all
  have frac_ne: "frac \<noteq> []"
    using frac_len by auto
  from trim_whole_props [OF whole_ne whole_digits, of frac] obtain k w where
    w: "whole = replicate k CHR ''0'' @ w" "w \<noteq> []"
       "trim_whole (whole @ CHR ''.'' # frac) = w @ CHR ''.'' # frac"
    by blast
  from trim_decimals_props [OF frac_ne frac_digits, of w] obtain j f where
    f: "frac = f @ replicate j CHR ''0''" "f \<noteq> []"
       "trim_decimals (w @ CHR ''.'' # frac) = w @ CHR ''.'' # f"
    by blast
  have w_digits: "list_all is_dec_char w"
    using whole_digits unfolding w(1) by simp
  have f_digits: "list_all is_dec_char f"
    using frac_digits unfolding f(1) by simp
  have f_len: "length f + j = 18"
    using frac_len unfolding f(1) by simp
  have result: "fixed_toString (int n) 18 = w @ CHR ''.'' # f"
    using w(3) f(3)
    by (simp add: fixed_toString_def Let_def p_def [symmetric]
        whole_def [symmetric] frac_def [symmetric])
  have "n = dec_value whole * 10 ^ 18 + dec_value frac"
    using p_value unfolding split by (simp add: dec_value_append frac_len)
  also have "dec_value whole = dec_value w"
    unfolding w(1) by (rule dec_value_leading_zeros)
  also have "dec_value frac = dec_value f * 10 ^ j"
    unfolding f(1) by (rule dec_value_trailing_zeros)
  finally have n_eq: "n = dec_value w * 10 ^ 18 + dec_value f * 10 ^ j" .
  have pow: "(10::real) ^ 18 = 10 ^ length f * 10 ^ j"
    using f_len by (metis power_add)
  have "real n / 10 ^ 18 = real (dec_value w) + real (dec_value f) * 10 ^ j / 10 ^ 18"
    by (subst n_eq) (simp add: add_divide_distrib)
  also have "real (dec_value f) * 10 ^ j / 10 ^ 18 = real (dec_value f) / 10 ^ length f"
    unfolding pow by simp
  finally have val_eq: "real (dec_value w) + real (dec_value f) / 10 ^ length f = real n / 10 ^ 18"
    by simp
  from f_len have "length f \<le> 18" by simp
  with result w(2) w_digits f(2) f_digits val_eq show ?thesis
    by blast
qed

lemma fixed_toString_value:
  "decimal_value (fixed_toString (int n) 18) = real n / 10 ^ 18"
proof -
  from fixed_toString_nat [of n] obtain w f where
    "fixed_toString (int n) 18 = w @ CHR ''.'' # f" "list_all is_dec_char w"
    "real (dec_value w) + real (dec_value f) / 10 ^ length f = real n / 10 ^ 18"
    by blast
  then show ?thesis
    by (simp add: decimal_value_split)
qed

lemma dec_string_numeral:
  "dec_string (numeral k) =
     (if (numeral k :: nat) < 10 then [digit_char (numeral k)]
      else dec_string (numeral k div 10) @ [digit_char (numeral k mod 10)])"
  by (rule dec_string.simps)

lemma dec_string_0: "dec_string 0 = ''0''"
  by (simp add: dec_string.simps [of 0] digit_char_def)

lemma fixed_toString_example: "fixed_toString (21000 * 20000000000) 18 = ''0.00042''"
proof -
  have "dec_string 420000000000000 = ''420000000000000''"
    by (simp add: dec_string_numeral digit_char_def)
  moreover have "pad_zeros ''420000000000000'' 18 = ''0000420000000000000''"
    by (simp add: pad_zeros.simps [of "''420000000000000''"]
        pad_zeros.simps [of "''0000420000000000000''"])
  ultimately show ?thesis
    by (simp add: fixed_toString_def trim_decimals_def)
qed


lemma checkValue_in_range:
  assumes "n < 2 ^ 511"
  shows "checkValue (int n) 512 = Inr (int n)"
proof -
  have small: "int n < 2 ^ 511"
    using assms by (metis of_nat_less_iff of_nat_numeral of_nat_power)
  have "(2::int) ^ 511 < 2 ^ 512"
    by simp
  with small have m: "int n mod 2 ^ 512 = int n"
    by simp
  from small have d: "int n div 2 ^ 511 = 0"
    by simp
  show ?thesis
  proof (cases "n = 0")
    case True
    then show ?thesis
      by (simp add: checkValue_def fromTwos_def mask_value_def)
  next
    case False
    then have "0 < int n" by simp
    with small m d show ?thesis
      by (simp add: checkValue_def fromTwos_def mask_value_def Let_def)
  qed
qed

lemma formatEther_in_range:
  "n < 2 ^ 511 \<Longrightarrow> formatEther (int n) = Inr (fixed_toString (int n) 18)"
  by (simp add: formatEther_def checkValue_in_range)

lemma formatEther_overflow:
  "2 ^ 511 \<le> wei \<Longrightarrow> formatEther wei = Inl (RangeError ''overflow'')"
  by (simp add: formatEther_def checkValue_def Let_def)

lemma BigInt_string_examples:
  "BigInt_string ''21000'' = Some 21000"
  "BigInt_string ''20000000000'' = Some 20000000000"
  "BigInt_string ''1'' = Some 1"
  by (simp_all add: BigInt_string_def js_trim_def is_js_space_def toLowerCase_def
      is_dec_char_def radix_value_def hex_digit_value_def Let_def)

lemma BigInt_string_2_to_511: "BigInt_string digits_of_2_to_511 = Some (2 ^ 511)"
  by (simp add: BigInt_string_def digits_of_2_to_511_def js_trim_def is_js_space_def
      toLowerCase_def is_dec_char_def radix_value_def hex_digit_value_def Let_def)

text \<open>
  Claim C9, as the code has it. When the two fields are read as the non-negative integers
  \<open>used\<close> and \<open>price\<close> and their product is below \<open>2^511\<close>, the cost is returned as a
  decimal string \<open>whole.fraction\<close> with one to eighteen fraction digits whose value is
  exactly \<open>used * price / 10^18\<close>: no digit of the quotient is lost. From \<open>2^511\<close> on
  \<open>formatEther\<close> throws a \<open>RangeError\<close>. 21000 gas at 20 gwei is printed as 0.00042.
\<close>

theorem C9_gas_cost:
  "(BigInt (gasUsed tx) = Some (int used) \<and> BigInt (gasPrice tx) = Some (int price)
      \<and> used * price < 2 ^ 511 \<longrightarrow>
      (\<exists>cost. calculateGasCost BigInt tx = Inr cost
         \<and> decimal_value cost = real (used * price) / 10 ^ 18
         \<and> (\<exists>whole fraction. cost = whole @ ''.'' @ fraction
               \<and> whole \<noteq> [] \<and> list_all is_dec_char whole
               \<and> fraction \<noteq> [] \<and> length fraction \<le> 18 \<and> list_all is_dec_char fraction)))
   \<and> (BigInt (gasUsed tx) = Some (int used) \<and> BigInt (gasPrice tx) = Some (int price)
      \<and> 2 ^ 511 \<le> used * price \<longrightarrow>
      calculateGasCost BigInt tx = Inl (RangeError ''overflow''))
   \<and> calculateGasCost BigInt_string \<lparr>gasUsed = ''21000'', gasPrice = ''20000000000''\<rparr>
       = Inr ''0.00042''"
proof (intro conjI impI)
  assume h: "BigInt (gasUsed tx) = Some (int used) \<and> BigInt (gasPrice tx) = Some (int price)
      \<and> used * price < 2 ^ 511"
  then have "calculateGasCost BigInt tx = formatEther (int (used * price))"
    by (simp add: calculateGasCost_def)
  moreover from h have "formatEther (int (used * price))
      = Inr (fixed_toString (int (used * price)) 18)"
    by (intro formatEther_in_range) simp
  ultimately have cost:
    "calculateGasCost BigInt tx = Inr (fixed_toString (int (used * price)) 18)"
    by (rule trans)
  from fixed_toString_nat [of "used * price"] obtain w f where
    "fixed_toString (int (used * price)) 18 = w @ ''.'' @ f" "w \<noteq> []" "list_all is_dec_char w"
    "f \<noteq> []" "length f \<le> 18" "list_all is_dec_char f"
    by auto
  with cost fixed_toString_value [of "used * price"]
  show "\<exists>cost. calculateGasCost BigInt tx = Inr cost
         \<and> decimal_value cost = real (used * price) / 10 ^ 18
         \<and> (\<exists>whole fraction. cost = whole @ ''.'' @ fraction
               \<and> whole \<noteq> [] \<and> list_all is_dec_char whole
               \<and> fraction \<noteq> [] \<and> length fraction \<le> 18 \<and> list_all is_dec_char fraction)"
    by blast
next
  assume h: "BigInt (gasUsed tx) = Some (int used) \<and> BigInt (gasPrice tx) = Some (int price)
      \<and> 2 ^ 511 \<le> used * price"
  then have "calculateGasCost BigInt tx = formatEther (int (used * price))"
    by (simp add: calculateGasCost_def)
  moreover from h have "(2::int) ^ 511 \<le> int (used * price)"
    by (metis of_nat_le_iff of_nat_numeral of_nat_power)
  then have "formatEther (int (used * price)) = Inl (RangeError ''overflow'')"
    by (rule formatEther_overflow)
  ultimately show "calculateGasCost BigInt tx = Inl (RangeError ''overflow'')"
    by (rule trans)
next
  have "(420000000000000::nat) < 2 ^ 511"
    by simp
  then have "formatEther (int 420000000000000) = Inr (fixed_toString (int 420000000000000) 18)"
    by (rule formatEther_in_range)
  with fixed_toString_example have "formatEther 420000000000000 = Inr ''0.00042''"
    by simp
  then show "calculateGasCost BigInt_string \<lparr>gasUsed = ''21000'', gasPrice = ''20000000000''\<rparr>
       = Inr ''0.00042''"
    by (simp add: calculateGasCost_def BigInt_string_examples)
qed

theorem C9_gas_cost_witness:
  "BigInt_string (gasUsed \<lparr>gasUsed = ''21000'', gasPrice = ''20000000000''\<rparr>) = Some (int 21000)
   \<and> BigInt_string (gasPrice \<lparr>gasUsed = ''21000'', gasPrice = ''20000000000''\<rparr>)
       = Some (int 20000000000)
   \<and> (21000::nat) * 20000000000 < 2 ^ 511
   \<and> calculateGasCost BigInt_string \<lparr>gasUsed = ''21000'', gasPrice = ''20000000000''\<rparr>
       = Inr ''0.00042''
   \<and> decimal_value ''0.00042'' = 42 / 100000
   \<and> BigInt_string (gasUsed \<lparr>gasUsed = digits_of_2_to_511, gasPrice = ''1''\<rparr>)
       = Some (int (2 ^ 511))
   \<and> BigInt_string (gasPrice \<lparr>gasUsed = digits_of_2_to_511, gasPrice = ''1''\<rparr>) = Some (int 1)
   \<and> (2::nat) ^ 511 \<le> 2 ^ 511 * 1
   \<and> calculateGasCost BigInt_string \<lparr>gasUsed = digits_of_2_to_511, gasPrice = ''1''\<rparr>
       = Inl (RangeError ''overflow'')"
proof -
  let ?tx = "\<lparr>gasUsed = ''21000'', gasPrice = ''20000000000''\<rparr>"
  let ?big = "\<lparr>gasUsed = digits_of_2_to_511, gasPrice = ''1''\<rparr>"
  have u: "BigInt_string (gasUsed ?tx) = Some (int 21000)"
    and p: "BigInt_string (gasPrice ?tx) = Some (int 20000000000)"
    by (simp_all add: BigInt_string_examples)
  have r: "(21000::nat) * 20000000000 < 2 ^ 511"
    by simp
  from C9_gas_cost [of BigInt_string ?tx 21000 20000000000] u p r
  obtain cost where c: "calculateGasCost BigInt_string ?tx = Inr cost"
    "decimal_value cost = real (21000 * 20000000000) / 10 ^ 18"
    and e: "calculateGasCost BigInt_string ?tx = Inr ''0.00042''"
    by blast
  from c e have "decimal_value ''0.00042'' = real (21000 * 20000000000) / 10 ^ 18"
    by simp
  then have v: "decimal_value ''0.00042'' = 42 / 100000"
    by simp
  have bu: "BigInt_string (gasUsed ?big) = Some (int (2 ^ 511))"
    and bp: "BigInt_string (gasPrice ?big) = Some (int 1)"
    by (simp_all add: BigInt_string_2_to_511 BigInt_string_examples)
  have br: "(2::nat) ^ 511 \<le> 2 ^ 511 * 1"
    by simp
  from C9_gas_cost [of BigInt_string ?big "2 ^ 511" 1] bu bp br
  have o: "calculateGasCost BigInt_string ?big = Inl (RangeError ''overflow'')"
    by blast
  from u p r e v bu bp br o show ?thesis
    by blast
qed

text \<open>
  The claim as stated covers every pair of non-negative integers. With 2^511 gas units at
  a price of 1 wei no cost is returned: \<open>formatEther\<close> throws.
\<close>

theorem C9_overflow_counterexample:
  "BigInt_string digits_of_2_to_511 = Some (2 ^ 511)
   \<and> BigInt_string ''1'' = Some 1
   \<and> calculateGasCost BigInt_string \<lparr>gasUsed = digits_of_2_to_511, gasPrice = ''1''\<rparr>
       = Inl (RangeError ''overflow'')"
  by (simp add: calculateGasCost_def BigInt_string_2_to_511 BigInt_string_examples
      formatEther_overflow)

end
